theory Spec2Isabelle
  imports Main "HOL-Library.Sublist"
begin

section \<open>ASIC export tool (tools/export-asic/export-asic.cpp)\<close>

text \<open>
  A shallow embedding of the ASIC export tool: the two script generators
  \<open>createASICSynthesisScript\<close> and \<open>createLibreLaneConfig\<close>, the flow runner
  \<open>runLibreLaneFlow\<close> and the driver \<open>main\<close>. Strings are \<open>char list\<close>; a C++
  \<open>std::string\<close> concatenation \<open>a + b\<close> is \<open>a @ b\<close>. "The text \<open>t\<close> contains \<open>s\<close>" is
  \<open>sublist s t\<close> (a contiguous run of \<open>t\<close>).
\<close>

subsection \<open>Characters of the templates\<close>

abbreviation nl :: string where
  "nl \<equiv> [CHR 0x0A]"

abbreviation dq :: string where
  "dq \<equiv> [CHR 0x22]"

subsection \<open>Script generators\<close>

text \<open>
  \<open>createASICSynthesisScript\<close>, lines 177 to 213. Every raw string literal of the source
  is written line by line, \<open>nl\<close> for each line break inside it.
\<close>

definition createASICSynthesisScript :: "string \<Rightarrow> string \<Rightarrow> string \<Rightarrow> string \<Rightarrow> string" where
  "createASICSynthesisScript designName pdk library outputDir =
     nl @
     ''# ASIC Synthesis Script for '' @ designName @ nl @
     ''# Generated by Dynamatic ASIC Export Tool'' @ nl @
     nl @
     ''# Read design files'' @ nl @
     ''read_verilog '' @ outputDir @ ''/'' @ designName @ ''.v'' @ nl @
     nl @
     ''# Hierarchy check'' @ nl @
     ''hierarchy -check -top '' @ designName @ nl @
     nl @
     ''# High-level synthesis'' @ nl @
     ''proc; opt; fsm; opt; memory; opt'' @ nl @
     nl @
     ''# Technology mapping'' @ nl @
     ''techmap; opt'' @ nl @
     nl @
     ''# Map to standard cells'' @ nl @
     ''dfflibmap -liberty $::env(PDK_ROOT)/'' @ pdk @ ''/libs.ref/'' @ library @
        ''/liberty/'' @ library @ ''__tt_025C_1v80.lib'' @ nl @
     ''abc -liberty $::env(PDK_ROOT)/'' @ pdk @ ''/libs.ref/'' @ library @
        ''/liberty/'' @ library @ ''__tt_025C_1v80.lib'' @ nl @
     nl @
     ''# Write synthesized netlist'' @ nl @
     ''write_verilog -noattr '' @ outputDir @ ''/'' @ designName @ ''_synthesized.v'' @ nl @
     ''write_liberty '' @ outputDir @ ''/'' @ designName @ ''.lib'' @ nl @
     nl @
     ''# Write statistics'' @ nl @
     ''stat -liberty $::env(PDK_ROOT)/'' @ pdk @ ''/libs.ref/'' @ library @
        ''/liberty/'' @ library @ ''__tt_025C_1v80.lib'' @ nl"

text \<open>
  The last raw string literal of \<open>createLibreLaneConfig\<close> (lines 228 to 261), from the
  point after the library name: it holds no argument of the function.
\<close>

definition libreLaneConfigTail :: string where
  "libreLaneConfigTail =
     dq @ nl @
     nl @
     ''# Design configuration'' @ nl @
     ''set ::env(CLOCK_PERIOD) '' @ dq @ ''10.0'' @ dq @ nl @
     ''set ::env(CLOCK_PORT) '' @ dq @ ''clock'' @ dq @ nl @
     ''set ::env(CLOCK_NET) '' @ dq @ ''clock'' @ dq @ nl @
     nl @
     ''# Floorplan configuration'' @ nl @
     ''set ::env(DIE_AREA) '' @ dq @ ''0 0 1000 1000'' @ dq @ nl @
     ''set ::env(PLACE_SITE) '' @ dq @ ''unithd'' @ dq @ nl @
     ''set ::env(PLACE_DENSITY) '' @ dq @ ''0.6'' @ dq @ nl @
     nl @
     ''# Synthesis configuration'' @ nl @
     ''set ::env(SYNTH_STRATEGY) '' @ dq @ ''DELAY 0'' @ dq @ nl @
     ''set ::env(SYNTH_MAX_FANOUT) '' @ dq @ ''5'' @ dq @ nl @
     nl @
     ''# Place and Route configuration'' @ nl @
     ''set ::env(PLACE_SITE) '' @ dq @ ''unithd'' @ dq @ nl @
     ''set ::env(PLACE_DENSITY) '' @ dq @ ''0.6'' @ dq @ nl @
     ''set ::env(ROUTING_STRATEGY) '' @ dq @ ''2'' @ dq @ nl @
     nl @
     ''# Timing configuration'' @ nl @
     ''set ::env(STA_WRITE_LIB) '' @ dq @ ''1'' @ dq @ nl @
     ''set ::env(STA_USE_ARC_ENERGY) '' @ dq @ ''1'' @ dq @ nl @
     nl @
     ''# Power configuration'' @ nl @
     ''set ::env(POWER_OPTIMIZATION) '' @ dq @ ''1'' @ dq @ nl @
     nl @
     ''# Verification'' @ nl @
     ''set ::env(RUN_KLAYOUT_DRC) '' @ dq @ ''1'' @ dq @ nl @
     ''set ::env(RUN_KLAYOUT_XOR) '' @ dq @ ''1'' @ dq @ nl"

text \<open>\<open>createLibreLaneConfig\<close>, lines 216 to 264.\<close>

definition createLibreLaneConfig :: "string \<Rightarrow> string \<Rightarrow> string \<Rightarrow> string \<Rightarrow> string" where
  "createLibreLaneConfig designName pdk library outputDir =
     nl @
     ''# LibreLane Configuration for '' @ designName @ nl @
     ''# Generated by Dynamatic ASIC Export Tool'' @ nl @
     nl @
     ''set ::env(DESIGN_NAME) '' @ dq @ designName @ dq @ nl @
     ''set ::env(VERILOG_FILES) '' @ dq @
     (outputDir @ ''/'' @ designName @ ''_synthesized.v'') @
     dq @ nl @
     ''set ::env(PDK) '' @ dq @ pdk @ dq @ nl @
     ''set ::env(STD_CELL_LIBRARY) '' @ dq @ library @
     libreLaneConfigTail"

text \<open>
  The two paths the scripts refer to, as the source spells them: the synthesized netlist
  and the liberty timing library of the chosen kit and cell library.
\<close>

definition synthesizedNetlistPath :: "string \<Rightarrow> string \<Rightarrow> string" where
  "synthesizedNetlistPath outputDir designName = outputDir @ ''/'' @ designName @ ''_synthesized.v''"

definition libertyPath :: "string \<Rightarrow> string \<Rightarrow> string" where
  "libertyPath pdk library =
     ''$::env(PDK_ROOT)/'' @ pdk @ ''/libs.ref/'' @ library @ ''/liberty/'' @ library @
     ''__tt_025C_1v80.lib''"

subsection \<open>The world the tool acts on\<close>

text \<open>
  Everything the tool does besides computing its exit code is an effect on the world: the
  directories and regular files of the file system (a file is a path with its content),
  the commands handed to \<open>system\<close>, the paths handed to \<open>create_directories\<close>, and the
  two streams \<open>llvm::errs()\<close> and \<open>llvm::outs()\<close>.
\<close>

abbreviation sq :: string where
  "sq \<equiv> [CHR 0x27]"

record world =
  directories :: "string set"
  files :: "string \<rightharpoonup> string"
  commands :: "string list"
  mkdir_calls :: "string list"
  errs :: string
  outs :: string

datatype LogicalResult = success | failure

text \<open>
  The design as \<open>main\<close> reads it: the operations of the parsed MLIR module, in the order
  of the module's body. \<open>getOps<hw::HWModuleOp>\<close> enumerates the operations of that kind
  in this order; only the name of each is used.
\<close>

datatype hw_op =
    HWModuleOp string
  | HWModuleExternOp string "(string \<times> string) list"
  | OtherOp

fun getOps_HWModuleOp :: "hw_op list \<Rightarrow> string list" where
  "getOps_HWModuleOp [] = []"
| "getOps_HWModuleOp (HWModuleOp name # ops) = name # getOps_HWModuleOp ops"
| "getOps_HWModuleOp (_ # ops) = getOps_HWModuleOp ops"

text \<open>
  What the surroundings answer: reading and parsing the input file, the error of
  creating a directory that does not exist yet, parsing an RTL configuration file into
  the configuration read so far, whether a \<open>std::ofstream\<close> on a path opens, how many
  bytes the file at a path can take (a file-size limit or the space left on the device;
  nothing when there is no bound), and how the child process of a command ends.
  \<open>'cfg\<close> is the type \<open>RTLConfiguration\<close>, whose definition is not part of these sources.
\<close>

datatype child_status = Exited nat | Signalled nat | NotStarted

record 'cfg environment =
  getFileOrSTDIN :: "string \<Rightarrow> string + string"
  parseSourceFile :: "string \<Rightarrow> hw_op list option"
  create_error :: "string \<Rightarrow> string option"
  emptyConfig :: 'cfg
  parseFromFile :: "string \<Rightarrow> 'cfg \<Rightarrow> 'cfg option"
  ofstream_opens :: "string \<Rightarrow> bool"
  write_limit :: "string \<Rightarrow> nat option"
  child_termination :: "string \<Rightarrow> child_status"

definition print_errs :: "string \<Rightarrow> world \<Rightarrow> world" where
  "print_errs s w = w\<lparr>errs := errs w @ s\<rparr>"

definition print_outs :: "string \<Rightarrow> world \<Rightarrow> world" where
  "print_outs s w = w\<lparr>outs := outs w @ s\<rparr>"

text \<open>
  \<open>std::ofstream f(path)\<close> followed by \<open>f.is_open()\<close>: opening truncates or creates the
  file. \<open>f << text\<close> on an open stream appends what the file can still take: the bytes
  beyond the limit of the file are lost and the stream goes bad, which the source never
  tests (no \<open>good()\<close> or \<open>fail()\<close> follows any \<open><<\<close>), so a failing write changes nothing in
  the control flow.
\<close>

definition truncated :: "'cfg environment \<Rightarrow> string \<Rightarrow> string \<Rightarrow> string" where
  "truncated env path content =
     (case write_limit env path of None \<Rightarrow> content | Some n \<Rightarrow> take n content)"

definition ofstream_open :: "'cfg environment \<Rightarrow> string \<Rightarrow> world \<Rightarrow> bool \<times> world" where
  "ofstream_open env path w =
     (if ofstream_opens env path then (True, w\<lparr>files := (files w)(path \<mapsto> [])\<rparr>)
      else (False, w))"

definition stream_write :: "'cfg environment \<Rightarrow> string \<Rightarrow> string \<Rightarrow> world \<Rightarrow> world" where
  "stream_write env path text w =
     w\<lparr>files := (files w)(path \<mapsto>
          truncated env path (case files w path of None \<Rightarrow> text | Some c \<Rightarrow> c @ text))\<rparr>"

text \<open>
  The value \<open>system\<close> returns on POSIX is the status of the child as \<open>waitpid\<close> gives it,
  not its exit code: the exit code sits in bits 8 to 15, the number of a terminating
  signal in the low seven bits, and the value is \<open>-1\<close> when no child could be created.
\<close>

fun wait_status :: "child_status \<Rightarrow> int" where
  "wait_status (Exited code) = int (code mod 256) * 256"
| "wait_status (Signalled signal) = int (signal mod 128)"
| "wait_status NotStarted = - 1"

text \<open>
  \<open>system(cmd)\<close>: the command is run (recorded in \<open>commands\<close>) and its status returned.
  What the child process itself does to the file system is outside the model.
\<close>

definition system :: "'cfg environment \<Rightarrow> string \<Rightarrow> world \<Rightarrow> int \<times> world" where
  "system env cmd w =
     (wait_status (child_termination env cmd), w\<lparr>commands := commands w @ [cmd]\<rparr>)"

text \<open>
  \<open>llvm::sys::fs::create_directories(path, IgnoreExisting)\<close>, the library call of line
  353, at its interface: a directory that exists is an error only when \<open>IgnoreExisting\<close>
  is false; otherwise the directory is created together with its missing parents, or
  the call fails with the error of the surroundings and creates nothing.
\<close>

definition parent_paths :: "string \<Rightarrow> string list" where
  "parent_paths p = map (\<lambda>i. take i p) (filter (\<lambda>i. p ! i = CHR ''/'') [1..<length p])"

definition create_directories ::
  "'cfg environment \<Rightarrow> string \<Rightarrow> bool \<Rightarrow> world \<Rightarrow> string option \<times> world" where
  "create_directories env path IgnoreExisting w =
     (let w' = w\<lparr>mkdir_calls := mkdir_calls w @ [path]\<rparr> in
      if path \<in> directories w then
        (if IgnoreExisting then (None, w') else (Some ''File exists'', w'))
      else
        (case create_error env path of
           Some msg \<Rightarrow> (Some msg, w')
         | None \<Rightarrow>
            (None, w'\<lparr>directories := directories w \<union> {path} \<union> set (parent_paths path)\<rparr>)))"

subsection \<open>Printing an integer\<close>

text \<open>\<open>llvm::errs() << result\<close> for an \<open>int\<close>: the decimal digits, a minus sign first when negative.\<close>

definition digit :: "nat \<Rightarrow> char" where
  "digit n = char_of (48 + n)"

fun show_nat :: "nat \<Rightarrow> string" where
  "show_nat n = (if n < 10 then [digit n] else show_nat (n div 10) @ [digit (n mod 10)])"

declare show_nat.simps [simp del]

definition show_int :: "int \<Rightarrow> string" where
  "show_int i = (if i < 0 then ''-'' @ show_nat (nat (- i)) else show_nat (nat i))"

subsection \<open>The paths of the artifacts\<close>

text \<open>
  The values of the local variables \<open>designFile\<close>, \<open>yosysFile\<close> and \<open>configFile\<close> of
  \<open>main\<close> (lines 379, 399 and 408) and of \<open>runScript\<close> of \<open>runLibreLaneFlow\<close> (line 276).
\<close>

definition designFilePath :: "string \<Rightarrow> string \<Rightarrow> string" where
  "designFilePath outputDir designName = outputDir @ ''/'' @ designName @ ''.v''"

definition yosysFilePath :: "string \<Rightarrow> string" where
  "yosysFilePath outputDir = outputDir @ ''/synthesize.tcl''"

definition configFilePath :: "string \<Rightarrow> string" where
  "configFilePath outputDir = outputDir @ ''/config.tcl''"

definition runScriptPath :: "string \<Rightarrow> string" where
  "runScriptPath outputDir = outputDir @ ''/run_librelane.sh''"

subsection \<open>The flow runner\<close>

text \<open>The text written to the launcher script, lines 283 to 292, one line of the source per line.\<close>

definition launcherScript :: "string \<Rightarrow> string \<Rightarrow> string \<Rightarrow> string" where
  "launcherScript libreLanePath outputDir designName =
     ''#!/bin/bash'' @ nl @
     ''set -e'' @ nl @ nl @
     ''cd '' @ outputDir @ nl @
     ''export PDK_ROOT='' @ libreLanePath @ ''/pdks'' @ nl @
     ''export OPENLANE_ROOT='' @ libreLanePath @ nl @
     ''export OPENLANE_IMAGE_NAME=efabless/openlane:current'' @ nl @
     ''export CARAVEL_ROOT='' @ libreLanePath @ ''/caravel'' @ nl @
     ''export CARAVEL_LITE=1'' @ nl @ nl @
     ''# Run LibreLane flow'' @ nl @
     libreLanePath @ ''/flow.tcl -design '' @ designName @ '' -tag dynamatic'' @ nl"

text \<open>\<open>runLibreLaneFlow\<close>, lines 267 to 316.\<close>

definition runLibreLaneFlow ::
  "'cfg environment \<Rightarrow> string \<Rightarrow> string \<Rightarrow> string \<Rightarrow> world \<Rightarrow> LogicalResult \<times> world" where
  "runLibreLaneFlow env libreLanePath outputDir designName w =
     (if libreLanePath = [] then
        (failure, print_errs (''Error: LibreLane path not specified'' @ nl) w)
      else
        case ofstream_open env (runScriptPath outputDir) w of
          (False, w1) \<Rightarrow>
            (failure, print_errs (''Error: Cannot create LibreLane run script'' @ nl) w1)
        | (True, w1) \<Rightarrow>
            let w2 = stream_write env (runScriptPath outputDir)
                       (launcherScript libreLanePath outputDir designName) w1;
                chmodCmd = ''chmod +x '' @ runScriptPath outputDir in
            case system env chmodCmd w2 of (chmodResult, w3) \<Rightarrow>
            if chmodResult \<noteq> 0 then
              (failure, print_errs (''Error: Failed to make LibreLane script executable'' @ nl) w3)
            else
              let runCmd = ''bash '' @ runScriptPath outputDir;
                  w4 = print_outs (''Running LibreLane flow...'' @ nl) w3;
                  w5 = print_outs (''Command: '' @ runCmd @ nl) w4 in
              case system env runCmd w5 of (result, w6) \<Rightarrow>
              if result \<noteq> 0 then
                (failure,
                 print_errs (''Error: LibreLane flow failed with exit code '' @ show_int result @ nl) w6)
              else
                (success, print_outs (''LibreLane flow completed successfully!'' @ nl) w6))"

subsection \<open>The driver\<close>

text \<open>The command line after \<open>cl::ParseCommandLineOptions\<close>, lines 67 to 105, with its defaults.\<close>

record options =
  opt_inputFilename :: string
  opt_outputDir :: string
  opt_dynamaticPath :: string
  opt_propertyFilename :: string
  opt_pdk :: string
  opt_library :: string
  opt_designName :: string
  opt_runLibreLane :: bool
  opt_libreLanePath :: string
  opt_rtlConfigs :: "string list"

definition default_options :: "string \<Rightarrow> string \<Rightarrow> string list \<Rightarrow> options" where
  "default_options input outDir configs =
     \<lparr>opt_inputFilename = input, opt_outputDir = outDir, opt_dynamaticPath = ''.'',
      opt_propertyFilename = [], opt_pdk = ''sky130'', opt_library = ''sky130_fd_sc_hd'',
      opt_designName = ''dynamatic_design'', opt_runLibreLane = False,
      opt_libreLanePath = [], opt_rtlConfigs = configs\<rparr>"

text \<open>
  \<open>ASICExportInfo::concretizeExternalModules\<close> is declared at line 167 and called at line
  373; its body is not part of these sources. \<open>main\<close> takes it as a parameter: a function of
  the design, the configuration and the output path that returns its result, the files
  it wrote (in order) and what it printed on the error stream.
\<close>

record concretization =
  conc_result :: LogicalResult
  conc_written :: "(string \<times> string) list"
  conc_errs :: string

type_synonym 'cfg concretizer = "hw_op list \<Rightarrow> 'cfg \<Rightarrow> string \<Rightarrow> concretization"

definition apply_concretization :: "concretization \<Rightarrow> world \<Rightarrow> world" where
  "apply_concretization c w =
     w\<lparr>files := foldl (\<lambda>fs (p, t). fs(p \<mapsto> t)) (files w) (conc_written c),
       errs := errs w @ conc_errs c\<rparr>"

text \<open>The loop of lines 361 to 367: the first configuration file that fails to parse ends it.\<close>

fun parseConfigs :: "'cfg environment \<Rightarrow> string list \<Rightarrow> 'cfg \<Rightarrow> string + 'cfg" where
  "parseConfigs env [] config = Inr config"
| "parseConfigs env (configFile # rest) config =
     (case parseFromFile env configFile config of
        None \<Rightarrow> Inl configFile
      | Some config' \<Rightarrow> parseConfigs env rest config')"

text \<open>The text written for one module by the loop of lines 387 to 393.\<close>

definition moduleStub :: "string \<Rightarrow> string" where
  "moduleStub name =
     ''// Module: '' @ name @ nl @
     ''module '' @ name @ ''();'' @ nl @
     ''  // TODO: Implement module body'' @ nl @
     ''endmodule'' @ nl @ nl"

text \<open>
  Each \<open>return\<close> of \<open>main\<close> is one outcome; the process exit code is 0 for the last
  \<open>return 0\<close> and 1 for every other.
\<close>

datatype outcome =
    InputUnreadable
  | InputUnparsable
  | DirectoryFailed
  | ConfigUnparsable
  | ResolutionFailed
  | DesignFileFailed
  | FlowFailed
  | Completed

definition exit_code :: "outcome \<Rightarrow> int" where
  "exit_code r = (if r = Completed then 0 else 1)"

text \<open>
  The pattern of lines 400 to 404 and 410 to 413: the text is written when the stream
  opened, and nothing is done (and nothing reported) when it did not.
\<close>

definition write_if_open :: "'cfg environment \<Rightarrow> string \<Rightarrow> string \<Rightarrow> world \<Rightarrow> world" where
  "write_if_open env path text w =
     (case ofstream_open env path w of
        (True, w') \<Rightarrow> stream_write env path text w'
      | (False, w') \<Rightarrow> w')"

text \<open>The report of lines 415 to 419.\<close>

definition completionReport :: "string \<Rightarrow> string \<Rightarrow> string" where
  "completionReport outputDir designName =
     ''ASIC export completed successfully!'' @ nl @
     ''Output directory: '' @ outputDir @ nl @
     ''Design file: '' @ designFilePath outputDir designName @ nl @
     ''Yosys script: '' @ yosysFilePath outputDir @ nl @
     ''LibreLane config: '' @ configFilePath outputDir @ nl"

text \<open>Lines 378 to 429: the design file, the two scripts, the report and the optional flow.\<close>

definition emitArtifacts ::
  "'cfg environment \<Rightarrow> options \<Rightarrow> hw_op list \<Rightarrow> world \<Rightarrow> outcome \<times> world" where
  "emitArtifacts env opts module w =
     (let outputDir = opt_outputDir opts;
          designName = opt_designName opts in
      case ofstream_open env (designFilePath outputDir designName) w of
        (False, w1) \<Rightarrow>
          (DesignFileFailed,
           print_errs (''Error: Could not create design file '' @ sq @
                       designFilePath outputDir designName @ sq @ nl) w1)
      | (True, w1) \<Rightarrow>
          let w2 = foldl (\<lambda>w name. stream_write env (designFilePath outputDir designName)
                                     (moduleStub name) w)
                     w1 (getOps_HWModuleOp module);
              yosysScript = createASICSynthesisScript designName (opt_pdk opts) (opt_library opts) outputDir;
              w3 = write_if_open env (yosysFilePath outputDir) yosysScript w2;
              libreLaneConfig = createLibreLaneConfig designName (opt_pdk opts) (opt_library opts) outputDir;
              w4 = write_if_open env (configFilePath outputDir) libreLaneConfig w3;
              w5 = print_outs (completionReport outputDir designName) w4 in
          if opt_runLibreLane opts then
            (case runLibreLaneFlow env (opt_libreLanePath opts) outputDir designName w5 of
               (failure, w6) \<Rightarrow> (FlowFailed, print_errs (''Error: LibreLane flow failed'' @ nl) w6)
             | (success, w6) \<Rightarrow> (Completed, w6))
          else (Completed, w5))"

text \<open>\<open>main\<close>, lines 320 to 430.\<close>

definition main ::
  "'cfg concretizer \<Rightarrow> 'cfg environment \<Rightarrow> options \<Rightarrow> world \<Rightarrow> outcome \<times> world" where
  "main concretizeExternalModules env opts w =
     (case getFileOrSTDIN env (opt_inputFilename opts) of
        Inl message \<Rightarrow>
          (InputUnreadable,
           print_errs (''Could not open input file '' @ sq @ opt_inputFilename opts @ sq @
                       '': '' @ message @ nl) w)
      | Inr buffer \<Rightarrow>
     (case parseSourceFile env buffer of
        None \<Rightarrow> (InputUnparsable, print_errs (''Error: Could not parse the input file'' @ nl) w)
      | Some module \<Rightarrow>
     (case create_directories env (opt_outputDir opts) True w of
        (Some message, w1) \<Rightarrow>
          (DirectoryFailed,
           print_errs (''Error: Could not create output directory '' @ sq @ opt_outputDir opts @ sq @
                       '': '' @ message @ nl) w1)
      | (None, w1) \<Rightarrow>
     (case parseConfigs env (opt_rtlConfigs opts) (emptyConfig env) of
        Inl configFile \<Rightarrow>
          (ConfigUnparsable,
           print_errs (''Error: Could not parse RTL configuration file '' @ sq @ configFile @ sq @ nl) w1)
      | Inr config \<Rightarrow>
     (let c = concretizeExternalModules module config (opt_outputDir opts);
          w2 = apply_concretization c w1 in
      if conc_result c = failure then
        (ResolutionFailed, print_errs (''Error: Failed to concretize external modules'' @ nl) w2)
      else emitArtifacts env opts module w2)))))"

subsection \<open>Resolution of the external modules\<close>

text \<open>
  Modelled from the spec: the body of \<open>ASICExportInfo::concretizeExternalModules\<close>, the
  generator library (\<open>RTLConfiguration\<close>), the reference matcher and the concretizer are
  not part of these sources. A generator rule is a predicate over the name and the
  parameters of a reference together with a generation procedure that may fail; the
  library is the list of the rules in load order.
\<close>

record GeneratorRule =
  rule_accepts :: "string \<Rightarrow> (string \<times> string) list \<Rightarrow> bool"
  rule_generate :: "(string \<times> string) list \<Rightarrow> string option"

type_synonym ModuleReference = "string \<times> (string \<times> string) list"

text \<open>
  Modelled from the spec: the external references of the design, in the design's
  enumeration order, one for each external module operation.
\<close>

fun externalReferences :: "hw_op list \<Rightarrow> ModuleReference list" where
  "externalReferences [] = []"
| "externalReferences (HWModuleExternOp name params # ops) = (name, params) # externalReferences ops"
| "externalReferences (_ # ops) = externalReferences ops"

text \<open>
  Modelled from the spec: the reference matcher, a linear scan over the rules in load
  order that returns the first rule whose predicate accepts the reference, or nothing.
\<close>

definition matchReference :: "ModuleReference \<Rightarrow> GeneratorRule list \<Rightarrow> GeneratorRule option" where
  "matchReference reference rules =
     find (\<lambda>rule. rule_accepts rule (fst reference) (snd reference)) rules"

text \<open>
  Modelled from the spec: the concretizer applies the generation procedure of the rule
  to the parameters of the reference and writes the text to a path under the output
  directory derived from the name of the reference (here the name with the extension
  \<open>.v\<close>); it fails when the procedure fails or the file cannot be written.
\<close>

definition concretize ::
  "'cfg environment \<Rightarrow> ModuleReference \<Rightarrow> GeneratorRule \<Rightarrow> string \<Rightarrow> (string \<times> string) option" where
  "concretize env reference rule outputDir =
     (case rule_generate rule (snd reference) of
        None \<Rightarrow> None
      | Some text \<Rightarrow>
          (let path = outputDir @ ''/'' @ fst reference @ ''.v'' in
           if ofstream_opens env path then Some (path, text) else None))"

text \<open>
  Modelled from the spec: every reference is matched and, when it has a rule,
  concretized, in enumeration order. A reference without a rule or whose concretization
  fails makes the whole resolution fail, with one line of diagnostic that names it; the
  files of the other references stay written.
\<close>

fun resolveExternalModules ::
  "'cfg environment \<Rightarrow> GeneratorRule list \<Rightarrow> string \<Rightarrow> ModuleReference list \<Rightarrow> concretization" where
  "resolveExternalModules env rules outputDir [] =
     \<lparr>conc_result = success, conc_written = [], conc_errs = []\<rparr>"
| "resolveExternalModules env rules outputDir (reference # references) =
     (let rest = resolveExternalModules env rules outputDir references in
      case matchReference reference rules of
        None \<Rightarrow>
          rest\<lparr>conc_result := failure,
               conc_errs := ''Error: no generator rule matches external module '' @ sq @
                            fst reference @ sq @ nl @ conc_errs rest\<rparr>
      | Some rule \<Rightarrow>
          (case concretize env reference rule outputDir of
             None \<Rightarrow>
               rest\<lparr>conc_result := failure,
                    conc_errs := ''Error: could not generate external module '' @ sq @
                                 fst reference @ sq @ nl @ conc_errs rest\<rparr>
           | Some written \<Rightarrow> rest\<lparr>conc_written := written # conc_written rest\<rparr>))"

text \<open>
  Modelled from the spec: \<open>ASICExportInfo::concretizeExternalModules\<close> itself (declared at
  line 167, body missing), the resolution of all the external references of the design
  against the configuration, writing under the output path.
\<close>

definition concretizeExternalModules ::
  "(GeneratorRule list) environment \<Rightarrow> (GeneratorRule list) concretizer" where
  "concretizeExternalModules env module config outputPath =
     resolveExternalModules env config outputPath (externalReferences module)"

subsection \<open>Concrete runs\<close>

text \<open>
  A world with nothing in it, a small design (one external module \<open>adder\<close> and two
  modules of its own) and surroundings in which every call succeeds; the examples
  below change one answer at a time.
\<close>

definition empty_world :: world where
  "empty_world =
     \<lparr>directories = {}, files = Map.empty, commands = [], mkdir_calls = [], errs = [], outs = []\<rparr>"

definition sample_design :: "hw_op list" where
  "sample_design =
     [HWModuleExternOp ''adder'' [(''width'', ''32'')], HWModuleOp ''top'', OtherOp,
      HWModuleOp ''helper'']"

definition sample_env :: "'cfg \<Rightarrow> 'cfg environment" where
  "sample_env config =
     \<lparr>getFileOrSTDIN = (\<lambda>_. Inr ''design''),
      parseSourceFile = (\<lambda>_. Some sample_design),
      create_error = (\<lambda>_. None),
      emptyConfig = config,
      parseFromFile = (\<lambda>_ c. Some c),
      ofstream_opens = (\<lambda>_. True),
      write_limit = (\<lambda>_. None),
      child_termination = (\<lambda>_. Exited 0)\<rparr>"

definition sample_options :: options where
  "sample_options = default_options ''design.mlir'' ''out'' [''rtl.json'']"

definition succeeding_concretizer :: "unit concretizer" where
  "succeeding_concretizer module config outputPath =
     \<lparr>conc_result = success, conc_written = [(outputPath @ ''/adder.v'', ''module adder'')],
      conc_errs = []\<rparr>"

definition failing_concretizer :: "unit concretizer" where
  "failing_concretizer module config outputPath =
     \<lparr>conc_result = failure, conc_written = [], conc_errs = ''no match for adder'' @ nl\<rparr>"

definition adder_rule :: GeneratorRule where
  "adder_rule =
     \<lparr>rule_accepts = (\<lambda>name params. name = ''adder''),
      rule_generate = (\<lambda>params. Some ''module adder'')\<rparr>"

definition multiplier_rule :: GeneratorRule where
  "multiplier_rule =
     \<lparr>rule_accepts = (\<lambda>name params. name = ''multiplier''),
      rule_generate = (\<lambda>params. Some ''module multiplier'')\<rparr>"

text \<open>Whether the input file is read and parsed (lines 336 to 349).\<close>

definition inputParses :: "'cfg environment \<Rightarrow> options \<Rightarrow> bool" where
  "inputParses env opts =
     (case getFileOrSTDIN env (opt_inputFilename opts) of
        Inl message \<Rightarrow> False
      | Inr buffer \<Rightarrow> parseSourceFile env buffer \<noteq> None)"

text \<open>Surroundings in which one call fails.\<close>

definition unreadable_input_env :: "unit environment" where
  "unreadable_input_env =
     (sample_env ())\<lparr>getFileOrSTDIN := (\<lambda>_. Inl ''No such file or directory'')\<rparr>"

definition uncreatable_directory_env :: "unit environment" where
  "uncreatable_directory_env =
     (sample_env ())\<lparr>create_error := (\<lambda>_. Some ''Permission denied'')\<rparr>"

definition unwritable_script_env :: "unit environment" where
  "unwritable_script_env =
     (sample_env ())\<lparr>ofstream_opens := (\<lambda>path. path \<noteq> ''out/synthesize.tcl'')\<rparr>"

definition limited_design_file_env :: "unit environment" where
  "limited_design_file_env =
     (sample_env ())\<lparr>write_limit :=
        (\<lambda>path. if path = ''out/dynamatic_design.v'' then Some 120 else None)\<rparr>"

definition failing_flow_env :: "unit environment" where
  "failing_flow_env =
     (sample_env ())\<lparr>child_termination :=
        (\<lambda>cmd. if cmd = ''bash out/run_librelane.sh'' then Exited 1 else Exited 0)\<rparr>"

section \<open>Properties of the script generators\<close>

lemma sublist_witness: "ys = ps @ xs @ ss \<Longrightarrow> sublist xs ys"
  unfolding sublist_def by blast

lemma synthesis_has_designName:
  "sublist designName (createASICSynthesisScript designName pdk library outputDir)"
  unfolding createASICSynthesisScript_def
  by (rule sublist_witness [where ps = "nl @ ''# ASIC Synthesis Script for ''"]) simp

lemma synthesis_has_libertyPath:
  "sublist (libertyPath pdk library) (createASICSynthesisScript designName pdk library outputDir)"
  unfolding createASICSynthesisScript_def libertyPath_def
  by (rule sublist_witness [where ss = "nl"]) simp

lemma synthesis_has_pdk:
  "sublist pdk (createASICSynthesisScript designName pdk library outputDir)"
proof -
  have "sublist pdk (libertyPath pdk library)"
    unfolding libertyPath_def by (rule sublist_witness [where ps = "''$::env(PDK_ROOT)/''"]) simp
  then show ?thesis
    using synthesis_has_libertyPath sublist_order.order_trans by blast
qed

lemma synthesis_has_library:
  "sublist library (createASICSynthesisScript designName pdk library outputDir)"
proof -
  have "sublist library (libertyPath pdk library)"
    unfolding libertyPath_def by (rule sublist_witness [where ss = "''__tt_025C_1v80.lib''"]) simp
  then show ?thesis
    using synthesis_has_libertyPath sublist_order.order_trans by blast
qed

lemma synthesis_has_netlistPath:
  "sublist (synthesizedNetlistPath outputDir designName)
     (createASICSynthesisScript designName pdk library outputDir)"
  unfolding createASICSynthesisScript_def synthesizedNetlistPath_def
  by (rule sublist_witness [where ss = "nl @
     ''write_liberty '' @ outputDir @ ''/'' @ designName @ ''.lib'' @ nl @
     nl @
     ''# Write statistics'' @ nl @
     ''stat -liberty $::env(PDK_ROOT)/'' @ pdk @ ''/libs.ref/'' @ library @
        ''/liberty/'' @ library @ ''__tt_025C_1v80.lib'' @ nl"]) simp

lemma config_has_designName:
  "sublist designName (createLibreLaneConfig designName pdk library outputDir)"
  unfolding createLibreLaneConfig_def
  by (rule sublist_witness [where ps = "nl @ ''# LibreLane Configuration for ''"]) simp

lemma config_has_pdk:
  "sublist pdk (createLibreLaneConfig designName pdk library outputDir)"
  unfolding createLibreLaneConfig_def
  by (rule sublist_witness [where ss = "dq @ nl @
     ''set ::env(STD_CELL_LIBRARY) '' @ dq @ library @ libreLaneConfigTail"]) simp

lemma config_has_library:
  "sublist library (createLibreLaneConfig designName pdk library outputDir)"
  unfolding createLibreLaneConfig_def
  by (rule sublist_witness [where ss = "libreLaneConfigTail"]) simp

lemma config_has_netlistPath:
  "sublist (synthesizedNetlistPath outputDir designName)
     (createLibreLaneConfig designName pdk library outputDir)"
  unfolding createLibreLaneConfig_def synthesizedNetlistPath_def
  by (rule sublist_witness [where ss = "dq @ nl @
     ''set ::env(PDK) '' @ dq @ pdk @ dq @ nl @
     ''set ::env(STD_CELL_LIBRARY) '' @ dq @ library @ libreLaneConfigTail"]) simp

lemma config_ends_with_tail:
  "suffix libreLaneConfigTail (createLibreLaneConfig designName pdk library outputDir)"
  unfolding createLibreLaneConfig_def suffix_def by (simp del: append_assoc flip: append_assoc)

lemma sublist_of_tail:
  "sublist s libreLaneConfigTail \<Longrightarrow>
   sublist s (createLibreLaneConfig designName pdk library outputDir)"
  using config_ends_with_tail suffix_imp_sublist sublist_order.order_trans by blast

lemma tail_has_clock_period:
  "sublist (''set ::env(CLOCK_PERIOD) '' @ dq @ ''10.0'' @ dq) libreLaneConfigTail"
  unfolding libreLaneConfigTail_def by code_simp

lemma tail_has_clock_port:
  "sublist (''set ::env(CLOCK_PORT) '' @ dq @ ''clock'' @ dq) libreLaneConfigTail"
  unfolding libreLaneConfigTail_def by code_simp

lemma tail_has_die_area:
  "sublist (''set ::env(DIE_AREA) '' @ dq @ ''0 0 1000 1000'' @ dq) libreLaneConfigTail"
  unfolding libreLaneConfigTail_def by code_simp

lemma tail_has_place_density:
  "sublist (''set ::env(PLACE_DENSITY) '' @ dq @ ''0.6'' @ dq) libreLaneConfigTail"
  unfolding libreLaneConfigTail_def by code_simp

text \<open>
  Claim C5. \<open>createASICSynthesisScript\<close> and \<open>createLibreLaneConfig\<close> are functions of
  their four string arguments alone (neither takes nor returns a world, so neither can
  touch the file system), and for every input, empty strings included, the text each
  returns contains the design name, the kit and the library it was given.
\<close>

theorem generators_embed_arguments:
  "sublist designName (createASICSynthesisScript designName pdk library outputDir) \<and>
   sublist pdk (createASICSynthesisScript designName pdk library outputDir) \<and>
   sublist library (createASICSynthesisScript designName pdk library outputDir) \<and>
   sublist designName (createLibreLaneConfig designName pdk library outputDir) \<and>
   sublist pdk (createLibreLaneConfig designName pdk library outputDir) \<and>
   sublist library (createLibreLaneConfig designName pdk library outputDir)"
  by (intro conjI synthesis_has_designName synthesis_has_pdk synthesis_has_library
        config_has_designName config_has_pdk config_has_library)

text \<open>
  Claim C10. For every design name, kit, library and output directory the backend
  configuration ends with the same fixed block of settings, which holds the clock period
  \<open>10.0\<close>, the clock port \<open>clock\<close>, the die area \<open>0 0 1000 1000\<close> and the placement
  density \<open>0.6\<close>.
\<close>

theorem config_constants_fixed:
  "suffix libreLaneConfigTail (createLibreLaneConfig designName pdk library outputDir) \<and>
   sublist (''set ::env(CLOCK_PERIOD) '' @ dq @ ''10.0'' @ dq)
     (createLibreLaneConfig designName pdk library outputDir) \<and>
   sublist (''set ::env(CLOCK_PORT) '' @ dq @ ''clock'' @ dq)
     (createLibreLaneConfig designName pdk library outputDir) \<and>
   sublist (''set ::env(DIE_AREA) '' @ dq @ ''0 0 1000 1000'' @ dq)
     (createLibreLaneConfig designName pdk library outputDir) \<and>
   sublist (''set ::env(PLACE_DENSITY) '' @ dq @ ''0.6'' @ dq)
     (createLibreLaneConfig designName pdk library outputDir)"
  by (intro conjI config_ends_with_tail sublist_of_tail tail_has_clock_period
        tail_has_clock_port tail_has_die_area tail_has_place_density)

text \<open>
  Claim C6, as stated: every substitution point carries a value injected from the
  parameters of the session. The clock period, the die area and the placement density
  do not: the configuration of a session whose four parameters are all empty and the
  configuration of the default session carry the same three settings, and none of the
  three values is a parameter of the session.
\<close>

theorem fixed_settings_are_not_parameters:
  "sublist (''set ::env(CLOCK_PERIOD) '' @ dq @ ''10.0'' @ dq) (createLibreLaneConfig [] [] [] []) \<and>
   sublist (''set ::env(DIE_AREA) '' @ dq @ ''0 0 1000 1000'' @ dq) (createLibreLaneConfig [] [] [] []) \<and>
   sublist (''set ::env(PLACE_DENSITY) '' @ dq @ ''0.6'' @ dq) (createLibreLaneConfig [] [] [] []) \<and>
   sublist (''set ::env(CLOCK_PERIOD) '' @ dq @ ''10.0'' @ dq)
     (createLibreLaneConfig ''dynamatic_design'' ''sky130'' ''sky130_fd_sc_hd'' ''out'') \<and>
   sublist (''set ::env(DIE_AREA) '' @ dq @ ''0 0 1000 1000'' @ dq)
     (createLibreLaneConfig ''dynamatic_design'' ''sky130'' ''sky130_fd_sc_hd'' ''out'') \<and>
   sublist (''set ::env(PLACE_DENSITY) '' @ dq @ ''0.6'' @ dq)
     (createLibreLaneConfig ''dynamatic_design'' ''sky130'' ''sky130_fd_sc_hd'' ''out'') \<and>
   ''10.0'' \<notin> set [''dynamatic_design'', ''sky130'', ''sky130_fd_sc_hd'', ''out''] \<and>
   ''0 0 1000 1000'' \<notin> set [''dynamatic_design'', ''sky130'', ''sky130_fd_sc_hd'', ''out''] \<and>
   ''0.6'' \<notin> set [''dynamatic_design'', ''sky130'', ''sky130_fd_sc_hd'', ''out'']"
  by (intro conjI sublist_of_tail tail_has_clock_period tail_has_die_area tail_has_place_density)
     simp_all

text \<open>
  Claim C6, amended. The output of the two generators contains every required
  substitution point: the design name, the kit and the library as they were passed
  (in both texts), the path of the synthesized netlist built from the output directory
  and the design name (in both texts), the path of the liberty timing library built
  from the kit and the library (in the synthesis script), and the clock period, the
  clock port, the die area and the placement density as the fixed settings \<open>10.0\<close>,
  \<open>clock\<close>, \<open>0 0 1000 1000\<close> and \<open>0.6\<close>, which depend on no parameter.
\<close>

theorem substitution_points_present:
  "sublist designName (createASICSynthesisScript designName pdk library outputDir) \<and>
   sublist designName (createLibreLaneConfig designName pdk library outputDir) \<and>
   sublist pdk (createASICSynthesisScript designName pdk library outputDir) \<and>
   sublist pdk (createLibreLaneConfig designName pdk library outputDir) \<and>
   sublist library (createASICSynthesisScript designName pdk library outputDir) \<and>
   sublist library (createLibreLaneConfig designName pdk library outputDir) \<and>
   sublist (synthesizedNetlistPath outputDir designName)
     (createASICSynthesisScript designName pdk library outputDir) \<and>
   sublist (synthesizedNetlistPath outputDir designName)
     (createLibreLaneConfig designName pdk library outputDir) \<and>
   sublist (libertyPath pdk library) (createASICSynthesisScript designName pdk library outputDir) \<and>
   sublist (''set ::env(CLOCK_PERIOD) '' @ dq @ ''10.0'' @ dq)
     (createLibreLaneConfig designName pdk library outputDir) \<and>
   sublist (''set ::env(CLOCK_PORT) '' @ dq @ ''clock'' @ dq)
     (createLibreLaneConfig designName pdk library outputDir) \<and>
   sublist (''set ::env(DIE_AREA) '' @ dq @ ''0 0 1000 1000'' @ dq)
     (createLibreLaneConfig designName pdk library outputDir) \<and>
   sublist (''set ::env(PLACE_DENSITY) '' @ dq @ ''0.6'' @ dq)
     (createLibreLaneConfig designName pdk library outputDir)"
  by (intro conjI synthesis_has_designName synthesis_has_pdk synthesis_has_library
      synthesis_has_netlistPath synthesis_has_libertyPath config_has_designName config_has_pdk
      config_has_library config_has_netlistPath sublist_of_tail tail_has_clock_period
      tail_has_clock_port tail_has_die_area tail_has_place_density)

section \<open>Properties of the flow runner\<close>

text \<open>
  Claim C3. For every output directory and design name, the flow runner called with an
  empty flow path fails at once: it returns failure, prints one line on the error
  stream and changes nothing else (no file, no directory, no command run, nothing on the
  output stream).
\<close>

theorem flow_runner_empty_path:
  "runLibreLaneFlow env [] outputDir designName w =
     (failure, w\<lparr>errs := errs w @ ''Error: LibreLane path not specified'' @ nl\<rparr>) \<and>
   files (snd (runLibreLaneFlow env [] outputDir designName w)) = files w \<and>
   directories (snd (runLibreLaneFlow env [] outputDir designName w)) = directories w \<and>
   commands (snd (runLibreLaneFlow env [] outputDir designName w)) = commands w \<and>
   outs (snd (runLibreLaneFlow env [] outputDir designName w)) = outs w"
  by (simp add: runLibreLaneFlow_def print_errs_def)



lemma runLibreLaneFlow_cases:
  assumes "libreLanePath \<noteq> []"
  shows "runLibreLaneFlow env libreLanePath outputDir designName w =
    (let chmodCmd = ''chmod +x '' @ runScriptPath outputDir;
         runCmd = ''bash '' @ runScriptPath outputDir;
         w2 = w\<lparr>files := (files w)(runScriptPath outputDir \<mapsto>
                  truncated env (runScriptPath outputDir)
                    (launcherScript libreLanePath outputDir designName))\<rparr> in
     if \<not> ofstream_opens env (runScriptPath outputDir) then
       (failure, w\<lparr>errs := errs w @ ''Error: Cannot create LibreLane run script'' @ nl\<rparr>)
     else if wait_status (child_termination env chmodCmd) \<noteq> 0 then
       (failure, w2\<lparr>commands := commands w @ [chmodCmd],
                   errs := errs w @ ''Error: Failed to make LibreLane script executable'' @ nl\<rparr>)
     else if wait_status (child_termination env runCmd) \<noteq> 0 then
       (failure, w2\<lparr>commands := commands w @ [chmodCmd, runCmd],
                   outs := outs w @ ''Running LibreLane flow...'' @ nl @ ''Command: '' @ runCmd @ nl,
                   errs := errs w @ ''Error: LibreLane flow failed with exit code '' @
                           show_int (wait_status (child_termination env runCmd)) @ nl\<rparr>)
     else
       (success, w2\<lparr>commands := commands w @ [chmodCmd, runCmd],
                   outs := outs w @ ''Running LibreLane flow...'' @ nl @ ''Command: '' @ runCmd @ nl @
                           ''LibreLane flow completed successfully!'' @ nl\<rparr>))"
  using assms
  by (simp add: runLibreLaneFlow_def ofstream_open_def system_def print_errs_def print_outs_def
      stream_write_def Let_def)

lemma show_int_256: "show_int 256 = ''256''"
  by code_simp

lemma not_failure: "(r \<noteq> failure) = (r = success)"
  by (cases r) simp_all

lemma count_list_append: "count_list (xs @ ys) x = count_list xs x + count_list ys x"
  by (induction xs) simp_all

text \<open>
  With a non-empty flow path the flow runner fails exactly when the launcher script
  cannot be created, or \<open>system\<close> returns non-zero for \<open>chmod\<close>, or \<open>system\<close> returns
  non-zero for the launcher; in the last case the diagnostic carries the value \<open>system\<close>
  returned. The commands run are \<open>chmod\<close> and then the launcher, in this order and each
  at most once: the flow is never run a second time.
\<close>

lemma flow_runner_outcomes:
  assumes "libreLanePath \<noteq> []"
  shows
    "(fst (runLibreLaneFlow env libreLanePath outputDir designName w) = failure \<longleftrightarrow>
        \<not> ofstream_opens env (runScriptPath outputDir) \<or>
        wait_status (child_termination env (''chmod +x '' @ runScriptPath outputDir)) \<noteq> 0 \<or>
        wait_status (child_termination env (''bash '' @ runScriptPath outputDir)) \<noteq> 0) \<and>
     (ofstream_opens env (runScriptPath outputDir) \<and>
      wait_status (child_termination env (''chmod +x '' @ runScriptPath outputDir)) = 0 \<and>
      wait_status (child_termination env (''bash '' @ runScriptPath outputDir)) \<noteq> 0 \<longrightarrow>
        errs (snd (runLibreLaneFlow env libreLanePath outputDir designName w)) =
          errs w @ ''Error: LibreLane flow failed with exit code '' @
          show_int (wait_status (child_termination env (''bash '' @ runScriptPath outputDir))) @ nl) \<and>
     commands (snd (runLibreLaneFlow env libreLanePath outputDir designName w)) =
       commands w @
       (if \<not> ofstream_opens env (runScriptPath outputDir) then []
        else if wait_status (child_termination env (''chmod +x '' @ runScriptPath outputDir)) \<noteq> 0
          then [''chmod +x '' @ runScriptPath outputDir]
        else [''chmod +x '' @ runScriptPath outputDir, ''bash '' @ runScriptPath outputDir]) \<and>
     count_list (commands (snd (runLibreLaneFlow env libreLanePath outputDir designName w)))
         (''bash '' @ runScriptPath outputDir) \<le>
       count_list (commands w) (''bash '' @ runScriptPath outputDir) + 1"
  unfolding runLibreLaneFlow_cases [OF assms] Let_def
  by (simp add: count_list_append)

text \<open>
  Claim C4, at a failing input: the launcher script is created, \<open>chmod\<close> succeeds and the
  launcher exits with code 1. The flow runner fails and runs each command once, but the
  diagnostic reads \<open>exit code 256\<close>: it prints the value \<open>system\<close> returned (line 308 to
  310), which is the wait status, and not the exit code of the child.
\<close>

theorem child_exit_code_is_not_reported:
  "child_termination failing_flow_env ''bash out/run_librelane.sh'' = Exited 1 \<and>
   fst (runLibreLaneFlow failing_flow_env ''/opt/librelane'' ''out'' ''top'' empty_world) = failure \<and>
   commands (snd (runLibreLaneFlow failing_flow_env ''/opt/librelane'' ''out'' ''top'' empty_world)) =
     [''chmod +x out/run_librelane.sh'', ''bash out/run_librelane.sh''] \<and>
   errs (snd (runLibreLaneFlow failing_flow_env ''/opt/librelane'' ''out'' ''top'' empty_world)) =
     ''Error: LibreLane flow failed with exit code 256'' @ nl \<and>
   errs (snd (runLibreLaneFlow failing_flow_env ''/opt/librelane'' ''out'' ''top'' empty_world)) \<noteq>
     ''Error: LibreLane flow failed with exit code 1'' @ nl"
  using flow_runner_outcomes [of "''/opt/librelane''" failing_flow_env "''out''" "''top''" empty_world]
  by (simp add: failing_flow_env_def sample_env_def empty_world_def runScriptPath_def show_int_256)

section \<open>Properties of the driver\<close>

lemma truncated_again:
  "truncated env p (truncated env p c @ t) = truncated env p (c @ t)"
  by (auto simp add: truncated_def min_def split: option.splits)

lemma truncated_empty: "truncated env p [] = []"
  by (simp add: truncated_def split: option.splits)

lemma truncated_unlimited: "write_limit env p = None \<Longrightarrow> truncated env p c = c"
  by (simp add: truncated_def)

lemma write_stubs_files:
  "files w p = Some (truncated env p c) \<Longrightarrow>
   files (foldl (\<lambda>w name. stream_write env p (f name) w) w names) q =
     (if q = p then Some (truncated env p (c @ concat (map f names))) else files w q)"
proof (induction names arbitrary: w c)
  case Nil
  then show ?case by simp
next
  case (Cons name names)
  have "files (stream_write env p (f name) w) p = Some (truncated env p (c @ f name))"
    using Cons.prems by (simp add: stream_write_def truncated_again)
  from Cons.IH [OF this] show ?case
    by (simp add: stream_write_def)
qed

lemma write_stubs_rest:
  "directories (foldl (\<lambda>w name. stream_write env p (f name) w) w names) = directories w \<and>
   commands (foldl (\<lambda>w name. stream_write env p (f name) w) w names) = commands w \<and>
   mkdir_calls (foldl (\<lambda>w name. stream_write env p (f name) w) w names) = mkdir_calls w \<and>
   errs (foldl (\<lambda>w name. stream_write env p (f name) w) w names) = errs w \<and>
   outs (foldl (\<lambda>w name. stream_write env p (f name) w) w names) = outs w"
  by (induction names arbitrary: w) (simp_all add: stream_write_def)

lemma flow_keeps:
  "directories (snd (runLibreLaneFlow env path outputDir designName w)) = directories w \<and>
   mkdir_calls (snd (runLibreLaneFlow env path outputDir designName w)) = mkdir_calls w \<and>
   (\<forall>p. p \<noteq> runScriptPath outputDir \<longrightarrow>
        files (snd (runLibreLaneFlow env path outputDir designName w)) p = files w p)"
  unfolding runLibreLaneFlow_def ofstream_open_def system_def print_errs_def print_outs_def
      stream_write_def Let_def
  by (simp split: if_splits)

lemma design_file_distinct:
  "designFilePath outputDir designName \<noteq> yosysFilePath outputDir"
  "designFilePath outputDir designName \<noteq> configFilePath outputDir"
  "designFilePath outputDir designName \<noteq> runScriptPath outputDir"
proof -
  have v: "last (designFilePath outputDir designName) = CHR ''v''"
    by (simp add: designFilePath_def)
  have "last (yosysFilePath outputDir) = CHR ''l''"
    by (simp add: yosysFilePath_def)
  with v show "designFilePath outputDir designName \<noteq> yosysFilePath outputDir"
    by auto
  have "last (configFilePath outputDir) = CHR ''l''"
    by (simp add: configFilePath_def)
  with v show "designFilePath outputDir designName \<noteq> configFilePath outputDir"
    by auto
  have "last (runScriptPath outputDir) = CHR ''h''"
    by (simp add: runScriptPath_def)
  with v show "designFilePath outputDir designName \<noteq> runScriptPath outputDir"
    by auto
qed

lemma print_errs_fields:
  "directories (print_errs s w) = directories w"
  "files (print_errs s w) = files w"
  "commands (print_errs s w) = commands w"
  "mkdir_calls (print_errs s w) = mkdir_calls w"
  "outs (print_errs s w) = outs w"
  "errs (print_errs s w) = errs w @ s"
  by (simp_all add: print_errs_def)

lemma print_outs_fields:
  "directories (print_outs s w) = directories w"
  "files (print_outs s w) = files w"
  "commands (print_outs s w) = commands w"
  "mkdir_calls (print_outs s w) = mkdir_calls w"
  "errs (print_outs s w) = errs w"
  "outs (print_outs s w) = outs w @ s"
  by (simp_all add: print_outs_def)

lemma write_if_open_fields:
  "directories (write_if_open env p t w) = directories w"
  "commands (write_if_open env p t w) = commands w"
  "mkdir_calls (write_if_open env p t w) = mkdir_calls w"
  "errs (write_if_open env p t w) = errs w"
  "outs (write_if_open env p t w) = outs w"
  "files (write_if_open env p t w) q =
     (if q = p \<and> ofstream_opens env p then Some (truncated env p t) else files w q)"
  by (simp_all add: write_if_open_def ofstream_open_def stream_write_def)

text \<open>The world after the design file and the two scripts were written and reported.\<close>

lemma emitArtifacts_unfold:
  "emitArtifacts env opts module w =
    (if \<not> ofstream_opens env (designFilePath (opt_outputDir opts) (opt_designName opts)) then
       (DesignFileFailed,
        print_errs (''Error: Could not create design file '' @ sq @
           designFilePath (opt_outputDir opts) (opt_designName opts) @ sq @ nl) w)
     else
       let w2 = foldl (\<lambda>w name. stream_write env (designFilePath (opt_outputDir opts) (opt_designName opts))
                         (moduleStub name) w)
                  (w\<lparr>files := (files w)(designFilePath (opt_outputDir opts) (opt_designName opts) \<mapsto> [])\<rparr>)
                  (getOps_HWModuleOp module);
           w5 = print_outs (completionReport (opt_outputDir opts) (opt_designName opts))
                  (write_if_open env (configFilePath (opt_outputDir opts))
                     (createLibreLaneConfig (opt_designName opts) (opt_pdk opts) (opt_library opts)
                        (opt_outputDir opts))
                     (write_if_open env (yosysFilePath (opt_outputDir opts))
                        (createASICSynthesisScript (opt_designName opts) (opt_pdk opts)
                           (opt_library opts) (opt_outputDir opts)) w2)) in
       if opt_runLibreLane opts then
         (if fst (runLibreLaneFlow env (opt_libreLanePath opts) (opt_outputDir opts)
                    (opt_designName opts) w5) = failure
          then (FlowFailed,
                print_errs (''Error: LibreLane flow failed'' @ nl)
                  (snd (runLibreLaneFlow env (opt_libreLanePath opts) (opt_outputDir opts)
                          (opt_designName opts) w5)))
          else (Completed,
                snd (runLibreLaneFlow env (opt_libreLanePath opts) (opt_outputDir opts)
                       (opt_designName opts) w5)))
       else (Completed, w5))"
  unfolding emitArtifacts_def Let_def ofstream_open_def
  by (simp only: case_prod_beta split: LogicalResult.split bool.split if_split)
     (auto simp only: fst_conv snd_conv LogicalResult.simps bool.simps split: if_splits)


lemma create_directories_fields:
  "files (snd (create_directories env p b w)) = files w"
  "commands (snd (create_directories env p b w)) = commands w"
  "errs (snd (create_directories env p b w)) = errs w"
  "outs (snd (create_directories env p b w)) = outs w"
  "mkdir_calls (snd (create_directories env p b w)) = mkdir_calls w @ [p]"
  by (simp_all add: create_directories_def Let_def split: option.splits)

lemma create_directories_result:
  "fst (create_directories env p True w) =
     (if p \<in> directories w then None else create_error env p)"
  "directories (snd (create_directories env p True w)) =
     (if p \<in> directories w \<or> create_error env p \<noteq> None then directories w
      else directories w \<union> {p} \<union> set (parent_paths p))"
  by (auto simp add: create_directories_def Let_def split: option.splits)

lemma written_elsewhere:
  "p \<notin> fst ` set written \<Longrightarrow> foldl (\<lambda>fs (q, t). fs(q \<mapsto> t)) fs written p = fs p"
  by (induction written arbitrary: fs) (auto split: prod.splits)

lemma apply_concretization_fields:
  "directories (apply_concretization c w) = directories w"
  "commands (apply_concretization c w) = commands w"
  "mkdir_calls (apply_concretization c w) = mkdir_calls w"
  "outs (apply_concretization c w) = outs w"
  "errs (apply_concretization c w) = errs w @ conc_errs c"
  "files (apply_concretization c w) = foldl (\<lambda>fs (q, t). fs(q \<mapsto> t)) (files w) (conc_written c)"
  by (simp_all add: apply_concretization_def)

lemma emitArtifacts_keeps:
  "directories (snd (emitArtifacts env opts module w)) = directories w"
  "mkdir_calls (snd (emitArtifacts env opts module w)) = mkdir_calls w"
  by (simp_all add: emitArtifacts_unfold Let_def print_errs_fields print_outs_fields
        write_if_open_fields flow_keeps write_stubs_rest)

lemma write_stubs_opened:
  "files (foldl (\<lambda>w name. stream_write env p (f name) w) (w\<lparr>files := (files w)(p \<mapsto> [])\<rparr>) names) q =
     (if q = p then Some (truncated env p (concat (map f names))) else files w q)"
  using write_stubs_files [of "w\<lparr>files := (files w)(p \<mapsto> [])\<rparr>" p env "[]" f names q]
  by (simp add: truncated_empty)

lemma emitArtifacts_design_file:
  assumes "fst (emitArtifacts env opts module w) \<noteq> DesignFileFailed"
  shows "files (snd (emitArtifacts env opts module w))
           (designFilePath (opt_outputDir opts) (opt_designName opts)) =
         Some (truncated env (designFilePath (opt_outputDir opts) (opt_designName opts))
                 (concat (map moduleStub (getOps_HWModuleOp module))))"
proof -
  have opens: "ofstream_opens env (designFilePath (opt_outputDir opts) (opt_designName opts))"
    using assms by (simp add: emitArtifacts_unfold split: if_splits)
  show ?thesis
    using opens
    by (simp add: emitArtifacts_unfold Let_def print_errs_fields print_outs_fields
        write_if_open_fields flow_keeps design_file_distinct write_stubs_opened)
qed

lemma emitArtifacts_outcomes:
  "fst (emitArtifacts env opts module w) \<in> {DesignFileFailed, FlowFailed, Completed}"
  by (simp add: emitArtifacts_unfold Let_def)

lemma main_resolution:
  assumes "getFileOrSTDIN env (opt_inputFilename opts) = Inr buffer"
      and "parseSourceFile env buffer = Some module"
      and "fst (create_directories env (opt_outputDir opts) True w) = None"
      and "parseConfigs env (opt_rtlConfigs opts) (emptyConfig env) = Inr config"
  shows "main conc env opts w =
     (let c = conc module config (opt_outputDir opts);
          w2 = apply_concretization c (snd (create_directories env (opt_outputDir opts) True w)) in
      if conc_result c = failure then
        (ResolutionFailed, print_errs (''Error: Failed to concretize external modules'' @ nl) w2)
      else emitArtifacts env opts module w2)"
  using assms
  by (simp add: main_def case_prod_beta split: option.splits)

text \<open>
  Claim C1. When the input was read and parsed, the output directory is there and the
  configuration files were parsed, and the resolution of the external modules fails,
  the run ends there with exit code 1: the files of the final world are those the
  resolution stage left, so no path other than the ones it wrote has been created or
  changed (neither the design file nor \<open>synthesize.tcl\<close> nor \<open>config.tcl\<close> is written
  after it), no command is run and nothing is reported on the output stream.
\<close>

theorem resolution_failure_stops_run:
  assumes "getFileOrSTDIN env (opt_inputFilename opts) = Inr buffer"
      and "parseSourceFile env buffer = Some module"
      and "fst (create_directories env (opt_outputDir opts) True w) = None"
      and "parseConfigs env (opt_rtlConfigs opts) (emptyConfig env) = Inr config"
      and "conc_result (conc module config (opt_outputDir opts)) = failure"
  shows "fst (main conc env opts w) = ResolutionFailed \<and>
         exit_code (fst (main conc env opts w)) = 1 \<and>
         files (snd (main conc env opts w)) =
           files (apply_concretization (conc module config (opt_outputDir opts)) w) \<and>
         (\<forall>p. p \<notin> fst ` set (conc_written (conc module config (opt_outputDir opts))) \<longrightarrow>
              files (snd (main conc env opts w)) p = files w p) \<and>
         commands (snd (main conc env opts w)) = commands w \<and>
         outs (snd (main conc env opts w)) = outs w"
  unfolding main_resolution [OF assms(1-4)] Let_def
  using assms(5)
  by (simp add: exit_code_def print_errs_fields apply_concretization_fields
      create_directories_fields written_elsewhere)

theorem resolution_failure_stops_run_witness:
  "getFileOrSTDIN (sample_env ()) (opt_inputFilename sample_options) = Inr ''design'' \<and>
   parseSourceFile (sample_env ()) ''design'' = Some sample_design \<and>
   fst (create_directories (sample_env ()) (opt_outputDir sample_options) True empty_world) = None \<and>
   parseConfigs (sample_env ()) (opt_rtlConfigs sample_options) (emptyConfig (sample_env ())) = Inr () \<and>
   conc_result (failing_concretizer sample_design () (opt_outputDir sample_options)) = failure \<and>
   exit_code (fst (main failing_concretizer (sample_env ()) sample_options empty_world)) = 1 \<and>
   files (snd (main failing_concretizer (sample_env ()) sample_options empty_world))
     ''out/dynamatic_design.v'' = None \<and>
   files (snd (main failing_concretizer (sample_env ()) sample_options empty_world))
     ''out/synthesize.tcl'' = None \<and>
   files (snd (main failing_concretizer (sample_env ()) sample_options empty_world))
     ''out/config.tcl'' = None"
proof -
  have a: "getFileOrSTDIN (sample_env ()) (opt_inputFilename sample_options) = Inr ''design''"
    by (simp add: sample_env_def)
  have b: "parseSourceFile (sample_env ()) ''design'' = Some sample_design"
    by (simp add: sample_env_def)
  have c: "fst (create_directories (sample_env ()) (opt_outputDir sample_options) True empty_world) = None"
    by (simp add: create_directories_result sample_env_def empty_world_def)
  have d: "parseConfigs (sample_env ()) (opt_rtlConfigs sample_options) (emptyConfig (sample_env ())) = Inr ()"
    by (simp add: sample_env_def sample_options_def default_options_def)
  have e: "conc_result (failing_concretizer sample_design () (opt_outputDir sample_options)) = failure"
    by (simp add: failing_concretizer_def)
  show ?thesis
    using resolution_failure_stops_run [where conc = failing_concretizer, OF a b c d e] a b c d e
    by (simp add: failing_concretizer_def exit_code_def apply_concretization_fields empty_world_def)
qed

lemma main_unparsed:
  "\<not> inputParses env opts \<Longrightarrow>
   mkdir_calls (snd (main conc env opts w)) = mkdir_calls w \<and>
   fst (main conc env opts w) \<in> {InputUnreadable, InputUnparsable}"
  by (auto simp add: main_def inputParses_def print_errs_fields split: sum.splits option.splits)

lemma main_parsed:
  assumes "inputParses env opts"
  obtains buffer module where
    "getFileOrSTDIN env (opt_inputFilename opts) = Inr buffer"
    "parseSourceFile env buffer = Some module"
  using assms by (auto simp add: inputParses_def split: sum.splits)

lemma main_after_directory:
  assumes "getFileOrSTDIN env (opt_inputFilename opts) = Inr buffer"
      and "parseSourceFile env buffer = Some module"
  shows "main conc env opts w =
    (let w1 = snd (create_directories env (opt_outputDir opts) True w) in
     case fst (create_directories env (opt_outputDir opts) True w) of
       Some message \<Rightarrow>
         (DirectoryFailed,
          print_errs (''Error: Could not create output directory '' @ sq @ opt_outputDir opts @ sq @
                      '': '' @ message @ nl) w1)
     | None \<Rightarrow>
        (case parseConfigs env (opt_rtlConfigs opts) (emptyConfig env) of
           Inl configFile \<Rightarrow>
             (ConfigUnparsable,
              print_errs (''Error: Could not parse RTL configuration file '' @ sq @ configFile @ sq @ nl) w1)
         | Inr config \<Rightarrow>
             (let c = conc module config (opt_outputDir opts);
                  w2 = apply_concretization c w1 in
              if conc_result c = failure then
                (ResolutionFailed, print_errs (''Error: Failed to concretize external modules'' @ nl) w2)
              else emitArtifacts env opts module w2)))"
  using assms
  by (simp add: main_def case_prod_beta Let_def split: option.splits)

lemma main_mkdir_calls:
  assumes "inputParses env opts"
  shows "mkdir_calls (snd (main conc env opts w)) = mkdir_calls w @ [opt_outputDir opts]"
proof -
  from assms obtain buffer module where
    "getFileOrSTDIN env (opt_inputFilename opts) = Inr buffer"
    "parseSourceFile env buffer = Some module"
    by (rule main_parsed)
  then show ?thesis
    by (simp add: main_after_directory Let_def print_errs_fields apply_concretization_fields
        create_directories_fields emitArtifacts_keeps split: option.splits sum.splits)
qed

lemma emitArtifacts_not_directory:
  "fst (emitArtifacts env opts module w) \<noteq> DirectoryFailed"
  by (simp add: emitArtifacts_unfold Let_def)

lemma main_directories:
  assumes "inputParses env opts"
  shows "directories (snd (main conc env opts w)) =
           directories (snd (create_directories env (opt_outputDir opts) True w)) \<and>
         (fst (main conc env opts w) = DirectoryFailed \<longleftrightarrow>
            fst (create_directories env (opt_outputDir opts) True w) \<noteq> None)"
proof -
  from assms obtain buffer module where
    "getFileOrSTDIN env (opt_inputFilename opts) = Inr buffer"
    "parseSourceFile env buffer = Some module"
    by (rule main_parsed)
  then show ?thesis
    by (auto simp add: main_after_directory Let_def print_errs_fields apply_concretization_fields
        emitArtifacts_keeps emitArtifacts_not_directory split: option.splits sum.splits)
qed

lemma main_directory_failed:
  assumes "inputParses env opts"
      and "fst (create_directories env (opt_outputDir opts) True w) = Some message"
  shows "main conc env opts w =
           (DirectoryFailed,
            print_errs (''Error: Could not create output directory '' @ sq @ opt_outputDir opts @ sq @
                        '': '' @ message @ nl)
              (snd (create_directories env (opt_outputDir opts) True w)))"
proof -
  from assms(1) obtain buffer module where
    "getFileOrSTDIN env (opt_inputFilename opts) = Inr buffer"
    "parseSourceFile env buffer = Some module"
    by (rule main_parsed)
  then show ?thesis
    using assms(2) by (simp add: main_after_directory Let_def)
qed

lemma sample_inputParses:
  "inputParses (sample_env ()) sample_options"
  "inputParses uncreatable_directory_env sample_options"
  "inputParses unwritable_script_env sample_options"
  "\<not> inputParses unreadable_input_env sample_options"
  by (simp_all add: inputParses_def sample_env_def uncreatable_directory_env_def
      unwritable_script_env_def unreadable_input_env_def)

lemma sample_outputDir: "opt_outputDir sample_options = ''out''"
  by (simp add: sample_options_def default_options_def)

lemma sample_parent_paths: "parent_paths ''out'' = []"
  by code_simp

text \<open>
  Claim C7, as stated: the creation of the output directory is attempted exactly once
  in every run. It is not: a run whose input file cannot be read ends with exit code 1
  before line 353, with no attempt at all.
\<close>

theorem directory_not_created_when_input_unreadable:
  "exit_code (fst (main succeeding_concretizer unreadable_input_env sample_options empty_world)) = 1 \<and>
   mkdir_calls (snd (main succeeding_concretizer unreadable_input_env sample_options empty_world)) = [] \<and>
   length (mkdir_calls (snd (main succeeding_concretizer unreadable_input_env sample_options
      empty_world))) \<noteq> 1"
  using main_unparsed [of unreadable_input_env sample_options succeeding_concretizer empty_world]
  by (auto simp add: sample_inputParses exit_code_def empty_world_def)

text \<open>
  Claim C7, amended. The creation of the output directory is attempted at most once in
  a run: exactly once when the input file was read and parsed, and not at all when it
  was not. A directory that exists already is not an error and leaves the directories
  as they were; a directory that does not exist is created with its parents; and when
  the creation fails the run ends with exit code 1 having written no file, created no
  directory, run no command and reported nothing on the output stream.
\<close>

theorem output_directory_created_once:
  "mkdir_calls (snd (main conc env opts w)) =
     mkdir_calls w @ (if inputParses env opts then [opt_outputDir opts] else []) \<and>
   (inputParses env opts \<and> opt_outputDir opts \<in> directories w \<longrightarrow>
      fst (main conc env opts w) \<noteq> DirectoryFailed \<and>
      directories (snd (main conc env opts w)) = directories w) \<and>
   (inputParses env opts \<and> opt_outputDir opts \<notin> directories w \<and>
    create_error env (opt_outputDir opts) = None \<longrightarrow>
      fst (main conc env opts w) \<noteq> DirectoryFailed \<and>
      directories (snd (main conc env opts w)) =
        directories w \<union> {opt_outputDir opts} \<union> set (parent_paths (opt_outputDir opts))) \<and>
   (inputParses env opts \<and> opt_outputDir opts \<notin> directories w \<and>
    create_error env (opt_outputDir opts) \<noteq> None \<longrightarrow>
      fst (main conc env opts w) = DirectoryFailed \<and>
      exit_code (fst (main conc env opts w)) = 1 \<and>
      files (snd (main conc env opts w)) = files w \<and>
      directories (snd (main conc env opts w)) = directories w \<and>
      commands (snd (main conc env opts w)) = commands w \<and>
      outs (snd (main conc env opts w)) = outs w)"
proof (intro conjI impI)
  show "mkdir_calls (snd (main conc env opts w)) =
     mkdir_calls w @ (if inputParses env opts then [opt_outputDir opts] else [])"
    using main_mkdir_calls [of env opts conc w] main_unparsed [of env opts conc w] by simp
next
  assume a: "inputParses env opts \<and> opt_outputDir opts \<in> directories w"
  with main_directories [of env opts conc w]
  show "fst (main conc env opts w) \<noteq> DirectoryFailed"
    "directories (snd (main conc env opts w)) = directories w"
    by (simp_all add: create_directories_result)
next
  assume a: "inputParses env opts \<and> opt_outputDir opts \<notin> directories w \<and>
    create_error env (opt_outputDir opts) = None"
  with main_directories [of env opts conc w]
  show "fst (main conc env opts w) \<noteq> DirectoryFailed"
    "directories (snd (main conc env opts w)) =
        directories w \<union> {opt_outputDir opts} \<union> set (parent_paths (opt_outputDir opts))"
    by (simp_all add: create_directories_result)
next
  assume a: "inputParses env opts \<and> opt_outputDir opts \<notin> directories w \<and>
    create_error env (opt_outputDir opts) \<noteq> None"
  then obtain message where m: "fst (create_directories env (opt_outputDir opts) True w) = Some message"
    by (auto simp add: create_directories_result)
  from a have p: "inputParses env opts" by simp
  note r = main_directory_failed [OF p m, of conc]
  show "fst (main conc env opts w) = DirectoryFailed"
    "exit_code (fst (main conc env opts w)) = 1"
    "files (snd (main conc env opts w)) = files w"
    "directories (snd (main conc env opts w)) = directories w"
    "commands (snd (main conc env opts w)) = commands w"
    "outs (snd (main conc env opts w)) = outs w"
    using a by (simp_all add: r exit_code_def print_errs_fields create_directories_fields
        create_directories_result)
qed

theorem output_directory_created_once_witness:
  "inputParses (sample_env ()) sample_options \<and>
   opt_outputDir sample_options \<in> directories (empty_world\<lparr>directories := {''out''}\<rparr>) \<and>
   fst (main succeeding_concretizer (sample_env ()) sample_options
          (empty_world\<lparr>directories := {''out''}\<rparr>)) \<noteq> DirectoryFailed \<and>
   mkdir_calls (snd (main succeeding_concretizer (sample_env ()) sample_options
          (empty_world\<lparr>directories := {''out''}\<rparr>))) = [''out''] \<and>
   inputParses uncreatable_directory_env sample_options \<and>
   opt_outputDir sample_options \<notin> directories empty_world \<and>
   create_error uncreatable_directory_env (opt_outputDir sample_options) \<noteq> None \<and>
   exit_code (fst (main succeeding_concretizer uncreatable_directory_env sample_options empty_world)) = 1 \<and>
   files (snd (main succeeding_concretizer uncreatable_directory_env sample_options empty_world)) =
     Map.empty \<and>
   mkdir_calls (snd (main succeeding_concretizer uncreatable_directory_env sample_options empty_world)) =
     [''out''] \<and>
   create_error (sample_env ()) (opt_outputDir sample_options) = None \<and>
   directories (snd (main succeeding_concretizer (sample_env ()) sample_options empty_world)) =
     {''out''}"
  using output_directory_created_once [of succeeding_concretizer "sample_env ()" sample_options
          "empty_world\<lparr>directories := {''out''}\<rparr>"]
    output_directory_created_once [of succeeding_concretizer "sample_env ()" sample_options
          empty_world]
    output_directory_created_once [of succeeding_concretizer uncreatable_directory_env sample_options
          empty_world]
  by (simp add: sample_inputParses sample_outputDir sample_parent_paths)
     (simp add: empty_world_def uncreatable_directory_env_def sample_env_def exit_code_def)

lemma main_emits:
  assumes "getFileOrSTDIN env (opt_inputFilename opts) = Inr buffer"
      and "parseSourceFile env buffer = Some module"
      and "fst (main conc env opts w) = Completed"
  obtains w2 where "main conc env opts w = emitArtifacts env opts module w2"
  using assms(3) unfolding main_after_directory [OF assms(1,2)] Let_def
  by (auto split: option.splits sum.splits if_splits)

lemma sample_run_completes:
  "fst (main succeeding_concretizer (sample_env ()) sample_options empty_world) = Completed"
  by (simp add: main_def sample_env_def sample_options_def default_options_def
      create_directories_result case_prod_beta succeeding_concretizer_def emitArtifacts_unfold Let_def)

text \<open>
  When nothing bounds the design file, a run that completes leaves in
  \<open><output directory>/<design name>.v\<close> exactly the stub declarations of the modules of
  the design, one for each module, in the order the design enumerates them.
\<close>

lemma design_file_complete_when_unlimited:
  assumes "getFileOrSTDIN env (opt_inputFilename opts) = Inr buffer"
      and "parseSourceFile env buffer = Some module"
      and "fst (main conc env opts w) = Completed"
      and "write_limit env (designFilePath (opt_outputDir opts) (opt_designName opts)) = None"
  shows "files (snd (main conc env opts w))
           (designFilePath (opt_outputDir opts) (opt_designName opts)) =
         Some (concat (map moduleStub (getOps_HWModuleOp module)))"
proof -
  from assms(1-3) obtain w2 where m: "main conc env opts w = emitArtifacts env opts module w2"
    by (rule main_emits)
  with assms(3) have "fst (emitArtifacts env opts module w2) \<noteq> DesignFileFailed"
    by simp
  from emitArtifacts_design_file [OF this] m assms(4) show ?thesis
    by (simp add: truncated_unlimited)
qed

lemma sample_main_emits:
  assumes "getFileOrSTDIN env = (\<lambda>_. Inr ''design'')"
      and "parseSourceFile env = (\<lambda>_. Some sample_design)"
      and "create_error env = (\<lambda>_. None)"
      and "parseFromFile env = (\<lambda>_ c. Some c)"
  shows "main succeeding_concretizer env sample_options empty_world =
        emitArtifacts env sample_options sample_design
          (apply_concretization (succeeding_concretizer sample_design (emptyConfig env) ''out'')
             (snd (create_directories env ''out'' True empty_world)))"
  by (simp add: main_def assms sample_options_def default_options_def create_directories_result
      empty_world_def case_prod_beta succeeding_concretizer_def)

text \<open>
  Claim C9, at a failing input: the design file opens but can take 120 bytes only (a
  file-size limit), and the stubs of the two modules of the design need 152. The run
  completes with exit code 0 and an empty error stream, and the design file holds the
  first 120 bytes: the stub of \<open>top\<close> and a part of the stub of \<open>helper\<close>.
\<close>

theorem truncated_design_file_is_not_reported:
  "ofstream_opens limited_design_file_env ''out/dynamatic_design.v'' \<and>
   write_limit limited_design_file_env ''out/dynamatic_design.v'' = Some 120 \<and>
   getOps_HWModuleOp sample_design = [''top'', ''helper''] \<and>
   length (concat (map moduleStub [''top'', ''helper''])) = 152 \<and>
   fst (main succeeding_concretizer limited_design_file_env sample_options empty_world) = Completed \<and>
   exit_code (fst (main succeeding_concretizer limited_design_file_env sample_options empty_world)) = 0 \<and>
   errs (snd (main succeeding_concretizer limited_design_file_env sample_options empty_world)) = [] \<and>
   files (snd (main succeeding_concretizer limited_design_file_env sample_options empty_world))
     ''out/dynamatic_design.v'' =
     Some (take 120 (concat (map moduleStub [''top'', ''helper'']))) \<and>
   files (snd (main succeeding_concretizer limited_design_file_env sample_options empty_world))
     ''out/dynamatic_design.v'' \<noteq>
     Some (concat (map moduleStub [''top'', ''helper'']))"
proof -
  let ?w = "apply_concretization (succeeding_concretizer sample_design () ''out'')
             (snd (create_directories limited_design_file_env ''out'' True empty_world))"
  have o: "opt_outputDir sample_options = ''out''" "opt_runLibreLane sample_options = False"
    "opt_designName sample_options = ''dynamatic_design''"
    by (simp_all add: sample_options_def default_options_def)
  have p: "designFilePath ''out'' ''dynamatic_design'' = ''out/dynamatic_design.v''"
    by (simp add: designFilePath_def)
  have opens: "ofstream_opens limited_design_file_env ''out/dynamatic_design.v''"
    and limit: "write_limit limited_design_file_env ''out/dynamatic_design.v'' = Some 120"
    by (simp_all add: limited_design_file_env_def sample_env_def)
  have names: "getOps_HWModuleOp sample_design = [''top'', ''helper'']"
    by (simp add: sample_design_def)
  have len: "length (concat (map moduleStub [''top'', ''helper''])) = 152"
    by (simp add: moduleStub_def)
  have m: "main succeeding_concretizer limited_design_file_env sample_options empty_world =
           emitArtifacts limited_design_file_env sample_options sample_design ?w"
    using sample_main_emits [of limited_design_file_env]
    by (simp add: limited_design_file_env_def sample_env_def)
  have completes: "fst (emitArtifacts limited_design_file_env sample_options sample_design ?w) = Completed"
    using opens by (simp add: emitArtifacts_unfold o p Let_def)
  have e: "errs (snd (emitArtifacts limited_design_file_env sample_options sample_design ?w)) = []"
    using opens
    by (simp add: emitArtifacts_unfold o p Let_def print_outs_fields write_if_open_fields
        write_stubs_rest apply_concretization_fields create_directories_fields
        succeeding_concretizer_def empty_world_def)
  have f: "files (snd (emitArtifacts limited_design_file_env sample_options sample_design ?w))
             ''out/dynamatic_design.v'' =
           Some (take 120 (concat (map moduleStub [''top'', ''helper''])))"
    using emitArtifacts_design_file [of limited_design_file_env sample_options sample_design ?w] completes
    by (simp add: o p names truncated_def limit)
  have "take 120 (concat (map moduleStub [''top'', ''helper''])) \<noteq>
        concat (map moduleStub [''top'', ''helper''])"
  proof
    assume "take 120 (concat (map moduleStub [''top'', ''helper''])) =
            concat (map moduleStub [''top'', ''helper''])"
    then have "length (take 120 (concat (map moduleStub [''top'', ''helper'']))) = 152"
      using len by simp
    then show False by simp
  qed
  then show ?thesis
    using opens limit names len completes e f by (simp add: m exit_code_def)
qed

text \<open>
  Claim C2, at a failing input: the design file opens, \<open>synthesize.tcl\<close> does not.
  The run completes with exit code 0, prints nothing on the error stream and leaves no
  \<open>synthesize.tcl\<close>.
\<close>

theorem unopened_script_is_not_reported:
  "\<not> ofstream_opens unwritable_script_env (yosysFilePath (opt_outputDir sample_options)) \<and>
   fst (main succeeding_concretizer unwritable_script_env sample_options empty_world) = Completed \<and>
   exit_code (fst (main succeeding_concretizer unwritable_script_env sample_options empty_world)) = 0 \<and>
   errs (snd (main succeeding_concretizer unwritable_script_env sample_options empty_world)) = [] \<and>
   files (snd (main succeeding_concretizer unwritable_script_env sample_options empty_world))
     ''out/synthesize.tcl'' = None"
proof -
  have o: "opt_outputDir sample_options = ''out''" "opt_runLibreLane sample_options = False"
    "opt_inputFilename sample_options = ''design.mlir''" "opt_rtlConfigs sample_options = [''rtl.json'']"
    "opt_designName sample_options = ''dynamatic_design''"
    by (simp_all add: sample_options_def default_options_def)
  have y: "yosysFilePath ''out'' = ''out/synthesize.tcl''"
    by (simp add: yosysFilePath_def)
  have c: "configFilePath ''out'' \<noteq> ''out/synthesize.tcl''"
    by (simp add: configFilePath_def)
  have d: "designFilePath ''out'' ''dynamatic_design'' \<noteq> ''out/synthesize.tcl''"
    unfolding y [symmetric] by (rule design_file_distinct)
  have opens: "ofstream_opens unwritable_script_env = (\<lambda>path. path \<noteq> ''out/synthesize.tcl'')"
    by (simp add: unwritable_script_env_def)
  have m: "main succeeding_concretizer unwritable_script_env sample_options empty_world =
        emitArtifacts unwritable_script_env sample_options sample_design
          (apply_concretization (succeeding_concretizer sample_design () ''out'')
             (snd (create_directories unwritable_script_env ''out'' True empty_world)))"
    by (simp add: main_def o unwritable_script_env_def sample_env_def create_directories_result
        empty_world_def case_prod_beta succeeding_concretizer_def)
  have f: "files (apply_concretization (succeeding_concretizer sample_design () ''out'')
             (snd (create_directories unwritable_script_env ''out'' True empty_world)))
             ''out/synthesize.tcl'' = None"
    by (simp add: apply_concretization_fields create_directories_fields succeeding_concretizer_def
        empty_world_def)
  have e: "errs (apply_concretization (succeeding_concretizer sample_design () ''out'')
             (snd (create_directories unwritable_script_env ''out'' True empty_world))) = []"
    by (simp add: apply_concretization_fields create_directories_fields succeeding_concretizer_def
        empty_world_def)
  show ?thesis
    unfolding m
    using d c
    by (simp add: emitArtifacts_unfold o y opens Let_def exit_code_def print_outs_fields
        write_if_open_fields write_stubs_rest write_stubs_opened f e)
qed

section \<open>Properties of the resolution\<close>

lemma sublist_later: "sublist xs zs \<Longrightarrow> sublist xs (ys @ zs)"
  using sublist_append_leftI sublist_order.order_trans by blast

lemma sublist_earlier: "sublist xs ys \<Longrightarrow> sublist xs (ys @ zs)"
  using sublist_append_rightI sublist_order.order_trans by blast

lemma resolve_names_unresolved:
  assumes "reference \<in> set references"
      and "matchReference reference rules = None"
  shows "conc_result (resolveExternalModules env rules outputDir references) = failure \<and>
         sublist (fst reference) (conc_errs (resolveExternalModules env rules outputDir references))"
  using assms
proof (induction references)
  case Nil
  then show ?case by simp
next
  case (Cons r rs)
  show ?case
  proof (cases "reference = r")
    case True
    have "sublist (fst r)
            (''Error: no generator rule matches external module '' @ sq @ fst r @ sq @ nl @
             conc_errs (resolveExternalModules env rules outputDir rs))"
      by (rule sublist_witness [where ps = "''Error: no generator rule matches external module '' @ sq"])
         simp
    with True Cons.prems(2) show ?thesis
      by (simp add: Let_def)
  next
    case False
    with Cons have ih: "conc_result (resolveExternalModules env rules outputDir rs) = failure"
      "sublist (fst reference) (conc_errs (resolveExternalModules env rules outputDir rs))"
      by simp_all
    have 1: "sublist (fst reference)
            (''Error: no generator rule matches external module '' @ sq @ fst r @ sq @ nl @
             conc_errs (resolveExternalModules env rules outputDir rs))"
      using ih(2) by (intro sublist_later)
    have 2: "sublist (fst reference)
            (''Error: could not generate external module '' @ sq @ fst r @ sq @ nl @
             conc_errs (resolveExternalModules env rules outputDir rs))"
      using ih(2) by (intro sublist_later)
    show ?thesis
      using ih 1 2 by (simp add: Let_def split: option.splits)
  qed
qed

text \<open>
  Claim C8. When the run reaches the resolution of the external modules and some
  external reference of the design has no matching generator rule, the run fails with
  exit code 1 and the text on the error stream contains the name of every such
  reference.
\<close>

theorem unresolved_references_are_named:
  assumes "getFileOrSTDIN env (opt_inputFilename opts) = Inr buffer"
      and "parseSourceFile env buffer = Some module"
      and "fst (create_directories env (opt_outputDir opts) True w) = None"
      and "parseConfigs env (opt_rtlConfigs opts) (emptyConfig env) = Inr config"
      and "(name, params) \<in> set (externalReferences module)"
      and "matchReference (name, params) config = None"
  shows "fst (main (concretizeExternalModules env) env opts w) = ResolutionFailed \<and>
         exit_code (fst (main (concretizeExternalModules env) env opts w)) = 1 \<and>
         sublist name (errs (snd (main (concretizeExternalModules env) env opts w)))"
proof -
  let ?c = "concretizeExternalModules env module config (opt_outputDir opts)"
  from resolve_names_unresolved [OF assms(5,6), of env "opt_outputDir opts"]
  have f: "conc_result ?c = failure" and n: "sublist name (conc_errs ?c)"
    by (simp_all add: concretizeExternalModules_def)
  have "sublist name
          ((errs w @ conc_errs ?c) @ ''Error: Failed to concretize external modules'' @ nl)"
    using n by (intro sublist_earlier sublist_later)
  then show ?thesis
    unfolding main_resolution [OF assms(1-4)] Let_def
    using f by (simp add: exit_code_def print_errs_fields apply_concretization_fields
        create_directories_fields)
qed

theorem unresolved_references_are_named_witness:
  "getFileOrSTDIN (sample_env [multiplier_rule]) (opt_inputFilename sample_options) = Inr ''design'' \<and>
   parseSourceFile (sample_env [multiplier_rule]) ''design'' = Some sample_design \<and>
   fst (create_directories (sample_env [multiplier_rule]) (opt_outputDir sample_options) True
          empty_world) = None \<and>
   parseConfigs (sample_env [multiplier_rule]) (opt_rtlConfigs sample_options)
     (emptyConfig (sample_env [multiplier_rule])) = Inr [multiplier_rule] \<and>
   (''adder'', [(''width'', ''32'')]) \<in> set (externalReferences sample_design) \<and>
   matchReference (''adder'', [(''width'', ''32'')]) [multiplier_rule] = None \<and>
   exit_code (fst (main (concretizeExternalModules (sample_env [multiplier_rule]))
                     (sample_env [multiplier_rule]) sample_options empty_world)) = 1 \<and>
   sublist ''adder''
     (errs (snd (main (concretizeExternalModules (sample_env [multiplier_rule]))
                   (sample_env [multiplier_rule]) sample_options empty_world)))"
proof -
  have a: "getFileOrSTDIN (sample_env [multiplier_rule]) (opt_inputFilename sample_options) =
           Inr ''design''"
    by (simp add: sample_env_def)
  have b: "parseSourceFile (sample_env [multiplier_rule]) ''design'' = Some sample_design"
    by (simp add: sample_env_def)
  have c: "fst (create_directories (sample_env [multiplier_rule]) (opt_outputDir sample_options) True
          empty_world) = None"
    by (simp add: create_directories_result sample_env_def empty_world_def)
  have d: "parseConfigs (sample_env [multiplier_rule]) (opt_rtlConfigs sample_options)
     (emptyConfig (sample_env [multiplier_rule])) = Inr [multiplier_rule]"
    by (simp add: sample_env_def sample_options_def default_options_def)
  have e: "(''adder'', [(''width'', ''32'')]) \<in> set (externalReferences sample_design)"
    by (simp add: sample_design_def)
  have f: "matchReference (''adder'', [(''width'', ''32'')]) [multiplier_rule] = None"
    by (simp add: matchReference_def multiplier_rule_def)
  show ?thesis
    using unresolved_references_are_named [OF a b c d e f] a b c d e f
    by (simp add: exit_code_def)
qed

end
